theory Spec2Isabelle
  imports Complex_Main
begin

section \<open>Data model (types.ts)\<close>

text \<open>
  The interfaces of the application become records. Field names carry a short prefix,
  since several interfaces share names (\<open>id\<close>, \<open>medicineId\<close>, \<open>batchNumber\<close>).
  A \<open>Date\<close> is its time value, an \<open>int\<close> of milliseconds since the epoch, so that
  \<open>a > b\<close> on dates is \<open>>\<close> on the integers. Unit counts (\<open>currentStock\<close>,
  \<open>quantity\<close>) are integer-valued JavaScript numbers and are modelled as \<open>int\<close>;
  prices and percentages are modelled as exact rationals. An optional field is an
  \<open>option\<close>, \<open>None\<close> standing for \<open>undefined\<close>.
\<close>

datatype scheduleType = H | H1 | X | GENERAL

record medicine =
  m_id :: string
  m_name :: string
  m_genericName :: "string option"
  m_brandName :: string
  m_dosage :: "string option"
  m_medicineType :: "string option"
  m_manufacturer :: string
  m_scheduleType :: scheduleType
  m_hsn :: string
  m_gst :: rat
  m_description :: "string option"
  m_createdAt :: int
  m_updatedAt :: int

record batch =
  b_id :: string
  b_medicineId :: string
  b_batchNumber :: string
  b_expiryDate :: int
  b_mrp :: rat
  b_purchasePrice :: rat
  b_sellingPrice :: rat
  b_currentStock :: int
  b_minStock :: int
  b_maxStock :: int
  b_supplierId :: string
  b_receivedDate :: int
  b_quantityToDispense :: "int option"

section \<open>The batches table (database/index.ts)\<close>

text \<open>
  A Dexie table is modelled by the list of its rows, in the order in which a query
  yields them. \<open>where('medicineId').equals(k)\<close> keeps the rows whose \<open>medicineId\<close>
  is \<open>k\<close>, \<open>filter\<close> keeps the rows that satisfy the predicate, and
  \<open>sortBy('expiryDate')\<close> sorts the resulting array by that key with the stable
  array sort, which \<open>sort_key\<close> is.
\<close>

definition where_medicineId_equals :: "string \<Rightarrow> batch list \<Rightarrow> batch list" where
  "where_medicineId_equals medicineId rows = filter (\<lambda>b. b_medicineId b = medicineId) rows"

definition sortBy_expiryDate :: "batch list \<Rightarrow> batch list" where
  "sortBy_expiryDate rows = sort_key b_expiryDate rows"

section \<open>FEFO selection (services/fefo.ts)\<close>

text \<open>
  The \<open>Error\<close> thrown at the end of \<open>selectBatchesForSale\<close> has the message
  \<open>Insufficient stock. Need n more units.\<close>; the error value keeps the number \<open>n\<close>.
\<close>

datatype fefo_error = InsufficientStock int

text \<open>The candidate rows of the query: the batches of the medicine that still hold
  stock and expire after the clock reading \<open>now\<close>, earliest expiry first.\<close>

definition fefo_candidates :: "int \<Rightarrow> batch list \<Rightarrow> string \<Rightarrow> batch list" where
  "fefo_candidates now rows medicineId =
     sortBy_expiryDate
       (filter (\<lambda>batch. b_currentStock batch > 0 \<and> b_expiryDate batch > now)
          (where_medicineId_equals medicineId rows))"

text \<open>The \<open>for\<close> loop: the state is the array \<open>selectedBatches\<close> and the counter
  \<open>remainingQuantity\<close>; \<open>break\<close> leaves the loop with the state as it is.\<close>

fun fefo_loop :: "batch list \<Rightarrow> batch list \<Rightarrow> int \<Rightarrow> batch list \<times> int" where
  "fefo_loop [] selectedBatches remainingQuantity = (selectedBatches, remainingQuantity)"
| "fefo_loop (batch # rest) selectedBatches remainingQuantity =
     (if remainingQuantity \<le> 0 then (selectedBatches, remainingQuantity)
      else
        let quantityFromBatch = min remainingQuantity (b_currentStock batch)
        in fefo_loop rest
             (selectedBatches @ [batch\<lparr>b_quantityToDispense := Some quantityFromBatch\<rparr>])
             (remainingQuantity - quantityFromBatch))"

definition selectBatchesForSale ::
  "int \<Rightarrow> batch list \<Rightarrow> string \<Rightarrow> int \<Rightarrow> fefo_error + batch list" where
  "selectBatchesForSale now rows medicineId quantity =
     (let batches = fefo_candidates now rows medicineId;
          (selectedBatches, remainingQuantity) = fefo_loop batches [] quantity
      in if remainingQuantity > 0 then Inl (InsufficientStock remainingQuantity)
         else Inr selectedBatches)"

text \<open>
  The stock that a sale of the medicine can draw on, as \<open>getMedicineStockAndPrice\<close>
  (Layout/HeaderSearch.tsx) adds it up over the same query.
\<close>

definition availableStock :: "int \<Rightarrow> batch list \<Rightarrow> string \<Rightarrow> int" where
  "availableStock now rows medicineId =
     sum_list (map b_currentStock
       (filter (\<lambda>batch. b_currentStock batch > 0 \<and> b_expiryDate batch > now)
          (where_medicineId_equals medicineId rows)))"

text \<open>\<open>batch.quantityToDispense || 0\<close>: the quantity that a selected batch carries.\<close>

definition dispensed :: "batch \<Rightarrow> int" where
  "dispensed batch = (case b_quantityToDispense batch of None \<Rightarrow> 0 | Some k \<Rightarrow> k)"

section \<open>Cart and notifications (store/index.ts)\<close>

record cartItem =
  ci_medicine :: medicine
  ci_batch :: batch
  ci_quantity :: int

datatype notificationType = NSuccess | NError | NWarning | NInfo

text \<open>
  The notification texts that the modelled operations produce. A text built from a
  template keeps the value that the template inserts.
\<close>

datatype message =
    AddedToCart string
  | InsufficientStockMessage int
  | CartIsEmpty
  | SaleCompleted int
  | CannotDeleteWithStock
  | MedicineDeleted string

section \<open>Sales and the Schedule H1 register (types.ts)\<close>

text \<open>
  A JavaScript number that may be \<open>NaN\<close>. Reading a property that an object does not
  have yields \<open>undefined\<close>, and \<open>undefined\<close> in an arithmetic operation is \<open>NaN\<close>.
  The only division of the modelled code has the literal \<open>100\<close> as its divisor; the
  infinities of a division of a nonzero number by zero are not modelled, and the
  equation for a zero divisor is not used.
\<close>

datatype jsnum = Num rat | NaN

datatype jsval = Undefined | Number jsnum

fun toNumber :: "jsval \<Rightarrow> jsnum" where
  "toNumber Undefined = NaN"
| "toNumber (Number n) = n"

fun js_times :: "jsnum \<Rightarrow> jsnum \<Rightarrow> jsnum" where
  "js_times (Num a) (Num b) = Num (a * b)"
| "js_times _ _ = NaN"

fun js_divide :: "jsnum \<Rightarrow> jsnum \<Rightarrow> jsnum" where
  "js_divide (Num a) (Num b) = (if b = 0 then NaN else Num (a / b))"
| "js_divide _ _ = NaN"

text \<open>\<open>a || b\<close> on strings: the empty string is falsy.\<close>

definition js_or :: "string \<Rightarrow> string \<Rightarrow> string" where
  "js_or a b = (if a = [] then b else a)"

definition or_undefined :: "string \<Rightarrow> string option" where
  "or_undefined a = (if a = [] then None else Some a)"

text \<open>
  The \<open>id\<close> of a sale, of a sale item and of a register entry is a fresh random UUID
  and is left out of the records.
\<close>

record saleItem =
  si_medicineId :: string
  si_medicineName :: string
  si_batchId :: string
  si_batchNumber :: string
  si_quantity :: int
  si_unitPrice :: rat
  si_totalPrice :: rat
  si_gstAmount :: jsnum

datatype paymentMethod = CASH | CARD | UPI | CREDIT

text \<open>The invoice number \<open>INV-t\<close> is kept as the clock reading \<open>t\<close>.\<close>

record sale =
  s_invoiceNumber :: int
  s_customerName :: "string option"
  s_customerPhone :: "string option"
  s_prescriptionId :: "string option"
  s_items :: "saleItem list"
  s_totalAmount :: rat
  s_gstAmount :: rat
  s_discountAmount :: rat
  s_paymentMethod :: paymentMethod
  s_saleDate :: int
  s_pharmacistId :: string

record scheduleH1Entry =
  h_medicineId :: string
  h_medicineName :: string
  h_batchNumber :: string
  h_customerName :: string
  h_doctorName :: string
  h_prescriptionNumber :: string
  h_quantityDispensed :: int
  h_dispensedDate :: int
  h_pharmacistSignature :: string

section \<open>Program state\<close>

text \<open>
  The tables of the database, the cart and notifications of the store, and the form
  state of the sales module.
\<close>

record state =
  medicines :: "medicine list"
  batches :: "batch list"
  sales :: "sale list"
  scheduleH1Entries :: "scheduleH1Entry list"
  cartItems :: "cartItem list"
  notifications :: "(notificationType \<times> message) list"
  customerName :: string
  customerPhone :: string
  prescriptionNumber :: string
  doctorName :: string
  paymentMethod :: paymentMethod
  discount :: rat
  completedSaleItems :: "cartItem list"
  showRestockPrompt :: bool

subsection \<open>Store actions (store/index.ts)\<close>

definition same_line :: "string \<Rightarrow> string \<Rightarrow> cartItem \<Rightarrow> bool" where
  "same_line medicineId batchId item \<longleftrightarrow>
     m_id (ci_medicine item) = medicineId \<and> b_id (ci_batch item) = batchId"

definition addToCart :: "medicine \<Rightarrow> batch \<Rightarrow> int \<Rightarrow> state \<Rightarrow> state" where
  "addToCart medicine batch quantity st =
     (case find (same_line (m_id medicine) (b_id batch)) (cartItems st) of
        Some existingItem \<Rightarrow>
          st\<lparr>cartItems :=
               map (\<lambda>item. if same_line (m_id medicine) (b_id batch) item
                            then item\<lparr>ci_quantity := ci_quantity item + quantity\<rparr>
                            else item)
                 (cartItems st)\<rparr>
      | None \<Rightarrow>
          st\<lparr>cartItems := cartItems st @
               [\<lparr>ci_medicine = medicine, ci_batch = batch, ci_quantity = quantity\<rparr>]\<rparr>)"

definition removeFromCart :: "string \<Rightarrow> string \<Rightarrow> state \<Rightarrow> state" where
  "removeFromCart medicineId batchId st =
     st\<lparr>cartItems := filter (\<lambda>item. \<not> same_line medicineId batchId item) (cartItems st)\<rparr>"

definition clearCart :: "state \<Rightarrow> state" where
  "clearCart st = st\<lparr>cartItems := []\<rparr>"

text \<open>The timer that removes a notification after five seconds is not modelled.\<close>

definition addNotification :: "notificationType \<Rightarrow> message \<Rightarrow> state \<Rightarrow> state" where
  "addNotification type msg st = st\<lparr>notifications := notifications st @ [(type, msg)]\<rparr>"

subsection \<open>Adding to the cart (Sales/SalesModule.tsx)\<close>

fun addSelectedToCart :: "medicine \<Rightarrow> batch list \<Rightarrow> state \<Rightarrow> state" where
  "addSelectedToCart medicine [] st = st"
| "addSelectedToCart medicine (batch # rest) st =
     addSelectedToCart medicine rest
       (addToCart medicine batch (dispensed batch) st)"

definition handleAddToCart :: "int \<Rightarrow> medicine \<Rightarrow> int \<Rightarrow> state \<Rightarrow> state" where
  "handleAddToCart now medicine requestedQuantity st =
     (case selectBatchesForSale now (batches st) (m_id medicine) requestedQuantity of
        Inl (InsufficientStock n) \<Rightarrow> addNotification NError (InsufficientStockMessage n) st
      | Inr selectedBatches \<Rightarrow>
          addNotification NSuccess (AddedToCart (m_brandName medicine))
            (addSelectedToCart medicine selectedBatches st))"

definition updateQuantity :: "string \<Rightarrow> string \<Rightarrow> int \<Rightarrow> state \<Rightarrow> state" where
  "updateQuantity medicineId batchId newQuantity st =
     (if newQuantity \<le> 0 then removeFromCart medicineId batchId st
      else
        (case find (same_line medicineId batchId) (cartItems st) of
           Some item \<Rightarrow>
             addToCart (ci_medicine item) (ci_batch item) newQuantity
               (removeFromCart medicineId batchId st)
         | None \<Rightarrow> st))"

subsection \<open>Totals and checkout (Sales/SalesModule.tsx)\<close>

record totals =
  t_subtotal :: rat
  t_discountAmount :: rat
  t_gstAmount :: rat
  t_total :: rat

definition lineSubtotal :: "cartItem \<Rightarrow> rat" where
  "lineSubtotal item = of_int (ci_quantity item) * b_sellingPrice (ci_batch item)"

definition calculateTotals :: "state \<Rightarrow> totals" where
  "calculateTotals st =
     (let subtotal = foldl (\<lambda>sum item. sum + lineSubtotal item) 0 (cartItems st);
          discountAmount = (subtotal * discount st) / 100;
          gstAmount =
            foldl (\<lambda>sum item.
                     let itemTotal = lineSubtotal item - (lineSubtotal item * discount st / 100)
                     in sum + (itemTotal * m_gst (ci_medicine item) / 100))
              0 (cartItems st);
          total = subtotal - discountAmount + gstAmount
      in \<lparr>t_subtotal = subtotal, t_discountAmount = discountAmount,
          t_gstAmount = gstAmount, t_total = total\<rparr>)"

text \<open>
  A cart item is an object \<open>{medicine, batch, quantity}\<close>: it has no property
  \<open>totalPrice\<close>, so the read \<open>item.totalPrice\<close> in the sale item literal yields
  \<open>undefined\<close>.
\<close>

definition cartItem_totalPrice :: "cartItem \<Rightarrow> jsval" where
  "cartItem_totalPrice item = Undefined"

definition makeSaleItem :: "cartItem \<Rightarrow> saleItem" where
  "makeSaleItem item =
     \<lparr>si_medicineId = m_id (ci_medicine item),
      si_medicineName = m_brandName (ci_medicine item),
      si_batchId = b_id (ci_batch item),
      si_batchNumber = b_batchNumber (ci_batch item),
      si_quantity = ci_quantity item,
      si_unitPrice = b_sellingPrice (ci_batch item),
      si_totalPrice = of_int (ci_quantity item) * b_sellingPrice (ci_batch item),
      si_gstAmount =
        js_divide (js_times (toNumber (cartItem_totalPrice item))
                            (Num (m_gst (ci_medicine item))))
                  (Num 100)\<rparr>"

text \<open>\<open>db.batches.get\<close> and \<open>db.batches.update\<close> by primary key.\<close>

definition batches_get :: "batch list \<Rightarrow> string \<Rightarrow> batch option" where
  "batches_get rows key = find (\<lambda>b. b_id b = key) rows"

definition batches_update_currentStock :: "batch list \<Rightarrow> string \<Rightarrow> int \<Rightarrow> batch list" where
  "batches_update_currentStock rows key v =
     map (\<lambda>b. if b_id b = key then b\<lparr>b_currentStock := v\<rparr> else b) rows"

text \<open>The loop that updates the stock levels: each line reads the row again, and a
  line whose row is not found is passed over.\<close>

fun updateStockLevels :: "cartItem list \<Rightarrow> batch list \<Rightarrow> batch list" where
  "updateStockLevels [] rows = rows"
| "updateStockLevels (item # rest) rows =
     (case batches_get rows (b_id (ci_batch item)) of
        Some batch \<Rightarrow>
          updateStockLevels rest
            (batches_update_currentStock rows (b_id (ci_batch item))
               (b_currentStock batch - ci_quantity item))
      | None \<Rightarrow> updateStockLevels rest rows)"

text \<open>\<open>ScheduleH1Service.addEntry\<close> (services/scheduleH1.ts) adds the entry as a new row.\<close>

definition addEntry :: "scheduleH1Entry \<Rightarrow> scheduleH1Entry list \<Rightarrow> scheduleH1Entry list" where
  "addEntry entry rows = rows @ [entry]"

fun addScheduleH1Entries ::
  "int \<Rightarrow> string \<Rightarrow> string \<Rightarrow> string \<Rightarrow> cartItem list \<Rightarrow>
   scheduleH1Entry list \<Rightarrow> scheduleH1Entry list" where
  "addScheduleH1Entries now cName dName pNumber [] rows = rows"
| "addScheduleH1Entries now cName dName pNumber (item # rest) rows =
     (if m_scheduleType (ci_medicine item) = H1 then
        addScheduleH1Entries now cName dName pNumber rest
          (addEntry
             \<lparr>h_medicineId = m_id (ci_medicine item),
              h_medicineName = m_brandName (ci_medicine item),
              h_batchNumber = b_batchNumber (ci_batch item),
              h_customerName = js_or cName ''Walk-in Customer'',
              h_doctorName = js_or dName ''Not specified'',
              h_prescriptionNumber = js_or pNumber ''Not provided'',
              h_quantityDispensed = ci_quantity item,
              h_dispensedDate = now,
              h_pharmacistSignature = ''System''\<rparr>
             rows)
      else addScheduleH1Entries now cName dName pNumber rest rows)"

datatype sale_error = EmptyCart

text \<open>
  \<open>processSale\<close> returns nothing in the source; the model returns, beside the new
  state, the sale it has stored, or the reason why it has stored none. The reads and
  writes of the store are taken to succeed, so the \<open>catch\<close> branch is not entered.
\<close>

definition processSale :: "int \<Rightarrow> state \<Rightarrow> (sale_error + sale) \<times> state" where
  "processSale now st =
     (if length (cartItems st) = 0 then (Inl EmptyCart, addNotification NError CartIsEmpty st)
      else
        let t = calculateTotals st;
            invoiceNumber = now;
            saleItems = map makeSaleItem (cartItems st);
            sale = \<lparr>s_invoiceNumber = invoiceNumber,
                    s_customerName = or_undefined (customerName st),
                    s_customerPhone = or_undefined (customerPhone st),
                    s_prescriptionId = or_undefined (prescriptionNumber st),
                    s_items = saleItems,
                    s_totalAmount = t_total t,
                    s_gstAmount = t_gstAmount t,
                    s_discountAmount = t_discountAmount t,
                    s_paymentMethod = paymentMethod st,
                    s_saleDate = now,
                    s_pharmacistId = ''system-user''\<rparr>;
            st1 = st\<lparr>sales := sales st @ [sale]\<rparr>;
            st2 = st1\<lparr>batches := updateStockLevels (cartItems st) (batches st1)\<rparr>;
            st3 = st2\<lparr>scheduleH1Entries :=
                        addScheduleH1Entries now (customerName st) (doctorName st)
                          (prescriptionNumber st) (cartItems st) (scheduleH1Entries st2)\<rparr>;
            st4 = clearCart st3;
            st5 = st4\<lparr>completedSaleItems := cartItems st,
                      customerName := [], customerPhone := [],
                      prescriptionNumber := [], doctorName := [], discount := 0\<rparr>;
            st6 = addNotification NSuccess (SaleCompleted invoiceNumber) st5
        in (Inr sale, st6\<lparr>showRestockPrompt := True\<rparr>))"

subsection \<open>Deleting a medicine (Inventory/LowStockPage.tsx)\<close>

text \<open>
  The refusal is the error notification \<open>Cannot delete medicine with existing stock\<close>
  followed by \<open>return\<close>; the model returns it as the error \<open>HasActiveStock\<close> of the
  medicine.
\<close>

datatype delete_error = HasActiveStock string

definition handleDeleteMedicine :: "medicine \<Rightarrow> state \<Rightarrow> (delete_error + unit) \<times> state" where
  "handleDeleteMedicine medicine st =
     (let withStock = filter (\<lambda>batch. b_currentStock batch > 0)
                        (where_medicineId_equals (m_id medicine) (batches st))
      in if length withStock > 0
         then (Inl (HasActiveStock (m_id medicine)),
               addNotification NError CannotDeleteWithStock st)
         else
           let st1 = st\<lparr>batches := filter (\<lambda>b. b_medicineId b \<noteq> m_id medicine) (batches st)\<rparr>;
               st2 = st1\<lparr>medicines := filter (\<lambda>m. m_id m \<noteq> m_id medicine) (medicines st1)\<rparr>
           in (Inr (),
               addNotification NSuccess
                 (MedicineDeleted (js_or (m_brandName medicine) (m_name medicine))) st2))"

section \<open>Notions used in the statements\<close>

text \<open>The quantity that the lines of a cart take from the batch with the given key.\<close>

definition soldFrom :: "cartItem list \<Rightarrow> string \<Rightarrow> int" where
  "soldFrom items key =
     sum_list (map ci_quantity (filter (\<lambda>item. b_id (ci_batch item) = key) items))"

text \<open>The table with the stock of the row of the given key lowered by a quantity.\<close>

definition decrementStock :: "string \<Rightarrow> int \<Rightarrow> batch list \<Rightarrow> batch list" where
  "decrementStock key quantity rows =
     map (\<lambda>b. if b_id b = key then b\<lparr>b_currentStock := b_currentStock b - quantity\<rparr> else b) rows"

text \<open>
  The tax of one line as the specification states it: the line subtotal less the
  line's share of the discount, times the GST percentage of the medicine. It is the
  summand of \<open>gstAmount\<close> in \<open>calculateTotals\<close>.
\<close>

definition lineGst :: "rat \<Rightarrow> cartItem \<Rightarrow> rat" where
  "lineGst discountPercent item =
     (lineSubtotal item - lineSubtotal item * discountPercent / 100)
       * m_gst (ci_medicine item) / 100"

section \<open>Example data\<close>

text \<open>
  The sample rows that \<open>initializeDatabase\<close> (database/index.ts) stores in an empty
  database, at the clock reading \<open>now\<close>, and the store as it is created.
\<close>

definition dec2025 :: int where "dec2025 = 1767139200000"
definition jun2024 :: int where "jun2024 = 1719705600000"
definition aug2024 :: int where "aug2024 = 1723680000000"

definition paracetamol :: "int \<Rightarrow> medicine" where
  "paracetamol now =
     \<lparr>m_id = ''1'', m_name = ''Paracetamol 500mg'', m_genericName = Some ''Paracetamol'',
      m_brandName = ''Crocin'', m_dosage = Some ''500mg'', m_medicineType = Some ''Tablet'',
      m_manufacturer = ''GSK'', m_scheduleType = GENERAL, m_hsn = ''30049099'', m_gst = 12,
      m_description = Some ''Pain relief and fever reducer'',
      m_createdAt = now, m_updatedAt = now\<rparr>"

definition alprazolam :: "int \<Rightarrow> medicine" where
  "alprazolam now =
     \<lparr>m_id = ''2'', m_name = ''Alprazolam 0.5mg'', m_genericName = Some ''Alprazolam'',
      m_brandName = ''Alprax'', m_dosage = Some ''0.5mg'', m_medicineType = Some ''Tablet'',
      m_manufacturer = ''Torrent'', m_scheduleType = H1, m_hsn = ''30049099'', m_gst = 12,
      m_description = Some ''Anti-anxiety medication'',
      m_createdAt = now, m_updatedAt = now\<rparr>"

definition amoxicillin :: "int \<Rightarrow> medicine" where
  "amoxicillin now =
     \<lparr>m_id = ''3'', m_name = ''Amoxicillin 500mg'', m_genericName = Some ''Amoxicillin'',
      m_brandName = ''Amoxil'', m_dosage = Some ''500mg'', m_medicineType = Some ''Capsule'',
      m_manufacturer = ''Cipla'', m_scheduleType = H, m_hsn = ''30049099'', m_gst = 12,
      m_description = Some ''Antibiotic for bacterial infections'',
      m_createdAt = now, m_updatedAt = now\<rparr>"

definition sampleMedicines :: "int \<Rightarrow> medicine list" where
  "sampleMedicines now = [paracetamol now, alprazolam now, amoxicillin now]"

definition sampleBatches :: "int \<Rightarrow> batch list" where
  "sampleBatches now =
     [\<lparr>b_id = ''1'', b_medicineId = ''1'', b_batchNumber = ''PCM001'', b_expiryDate = dec2025,
       b_mrp = 25, b_purchasePrice = 18, b_sellingPrice = 23, b_currentStock = 100,
       b_minStock = 20, b_maxStock = 500, b_supplierId = ''SUP001'', b_receivedDate = now,
       b_quantityToDispense = None\<rparr>,
      \<lparr>b_id = ''2'', b_medicineId = ''2'', b_batchNumber = ''ALP001'', b_expiryDate = jun2024,
       b_mrp = 45, b_purchasePrice = 35, b_sellingPrice = 42, b_currentStock = 50,
       b_minStock = 10, b_maxStock = 200, b_supplierId = ''SUP002'', b_receivedDate = now,
       b_quantityToDispense = None\<rparr>,
      \<lparr>b_id = ''3'', b_medicineId = ''3'', b_batchNumber = ''AMX001'', b_expiryDate = aug2024,
       b_mrp = 85, b_purchasePrice = 65, b_sellingPrice = 78, b_currentStock = 75,
       b_minStock = 15, b_maxStock = 300, b_supplierId = ''SUP001'', b_receivedDate = now,
       b_quantityToDispense = None\<rparr>]"

definition emptyState :: state where
  "emptyState =
     \<lparr>medicines = [], batches = [], sales = [], scheduleH1Entries = [], cartItems = [],
      notifications = [], customerName = [], customerPhone = [], prescriptionNumber = [],
      doctorName = [], paymentMethod = CASH, discount = 0, completedSaleItems = [],
      showRestockPrompt = False\<rparr>"

definition initializeDatabase :: "int \<Rightarrow> state \<Rightarrow> state" where
  "initializeDatabase now st =
     (if length (medicines st) = 0
      then st\<lparr>medicines := sampleMedicines now, batches := sampleBatches now\<rparr>
      else st)"

text \<open>
  Further batches for the examples: a row as the restock forms write it, with the
  given key, medicine, expiry date and stock. The dates are midnight UTC of the first
  day of the month.
\<close>

definition stockBatch :: "string \<Rightarrow> string \<Rightarrow> int \<Rightarrow> int \<Rightarrow> batch" where
  "stockBatch key medicineId expiryDate quantity =
     \<lparr>b_id = key, b_medicineId = medicineId, b_batchNumber = ''LOT-'' @ key,
      b_expiryDate = expiryDate, b_mrp = 25, b_purchasePrice = 18, b_sellingPrice = 23,
      b_currentStock = quantity, b_minStock = 20, b_maxStock = 500,
      b_supplierId = ''SUP001'', b_receivedDate = 0, b_quantityToDispense = None\<rparr>"

definition jan2020 :: int where "jan2020 = 1577836800000"
definition jan2024 :: int where "jan2024 = 1704067200000"
definition jan2025 :: int where "jan2025 = 1735689600000"
definition jun2025 :: int where "jun2025 = 1748736000000"
definition jan2030 :: int where "jan2030 = 1893456000000"

text \<open>Two batches of medicine 1 with different expiry dates, the later one first in
  the table, and a batch of another medicine.\<close>

definition scenarioRows :: "batch list" where
  "scenarioRows = [stockBatch ''A'' ''1'' jun2025 10, stockBatch ''B'' ''1'' jan2025 5,
                   stockBatch ''C'' ''2'' jan2025 40]"

text \<open>Two batches of medicine 1 that expire on the same day.\<close>

definition tiedRows :: "batch list" where
  "tiedRows = [stockBatch ''A'' ''1'' jan2025 5, stockBatch ''B'' ''1'' jan2025 10]"

text \<open>An expired batch with ample stock, an empty batch and a sellable batch.\<close>

definition expiredRows :: "batch list" where
  "expiredRows = [stockBatch ''A'' ''1'' jan2020 500, stockBatch ''B'' ''1'' jan2030 0,
                  stockBatch ''C'' ''1'' jan2025 20]"

text \<open>An expired batch and an empty batch: nothing can be sold.\<close>

definition unsellableRows :: "batch list" where
  "unsellableRows = [stockBatch ''A'' ''1'' jan2020 3, stockBatch ''B'' ''1'' jan2030 0]"

definition shop :: "batch list \<Rightarrow> state" where
  "shop rows = emptyState\<lparr>medicines := sampleMedicines jan2024, batches := rows\<rparr>"

text \<open>The sample database, and carts filled from it through \<open>handleAddToCart\<close>.\<close>

definition sampleShop :: state where
  "sampleShop = initializeDatabase jan2024 emptyState"

definition scenarioCart :: state where
  "scenarioCart = handleAddToCart jan2024 (paracetamol jan2024) 8 (shop scenarioRows)"

definition mixedCart :: state where
  "mixedCart = handleAddToCart jan2024 (alprazolam jan2024) 2
                 (handleAddToCart jan2024 (paracetamol jan2024) 1 sampleShop)"

text \<open>Two units of Crocin in the cart and a discount of ten percent in the form.\<close>

definition crocinCart :: state where
  "crocinCart = (handleAddToCart jan2024 (paracetamol jan2024) 2 sampleShop)\<lparr>discount := 10\<rparr>"

text \<open>Sixty units of Crocin added twice, the table holding a hundred.\<close>

definition doubleCart :: state where
  "doubleCart = handleAddToCart jan2024 (paracetamol jan2024) 60
                  (handleAddToCart jan2024 (paracetamol jan2024) 60 sampleShop)"

text \<open>Five units of Crocin added, and the quantity of the line then set to 150.\<close>

definition raisedCart :: state where
  "raisedCart = updateQuantity ''1'' ''1'' 150
                  (handleAddToCart jan2024 (paracetamol jan2024) 5 sampleShop)"

text \<open>
  Carts with a line for a batch whose row is not in the table (the row was deleted
  after the line was put into the cart).
\<close>

definition staleCart :: state where
  "staleCart = (shop (sampleBatches jan2024))
     \<lparr>cartItems := [\<lparr>ci_medicine = paracetamol jan2024,
                     ci_batch = stockBatch ''A'' ''1'' jun2025 10, ci_quantity = 3\<rparr>]\<rparr>"

definition partlyStaleCart :: state where
  "partlyStaleCart = (shop (sampleBatches jan2024))
     \<lparr>cartItems := [\<lparr>ci_medicine = paracetamol jan2024,
                     ci_batch = stockBatch ''A'' ''1'' jun2025 10, ci_quantity = 3\<rparr>,
                    \<lparr>ci_medicine = paracetamol jan2024,
                     ci_batch = hd (sampleBatches jan2024), ci_quantity = 4\<rparr>]\<rparr>"

text \<open>A shop in which the batches of medicine 1 hold no stock.\<close>

definition zeroStockShop :: state where
  "zeroStockShop = shop [stockBatch ''A'' ''1'' jan2030 0, stockBatch ''B'' ''2'' jan2025 5,
                         stockBatch ''C'' ''1'' jan2020 0]"

lemmas date_defs = dec2025_def jun2024_def aug2024_def jan2020_def jan2024_def jan2025_def
  jun2025_def jan2030_def

lemmas sample_defs = paracetamol_def alprazolam_def amoxicillin_def sampleMedicines_def
  sampleBatches_def emptyState_def initializeDatabase_def shop_def

lemmas fixture_defs = stockBatch_def date_defs scenarioRows_def tiedRows_def expiredRows_def
  unsellableRows_def

lemmas fefo_defs = selectBatchesForSale_def fefo_candidates_def sortBy_expiryDate_def
  where_medicineId_equals_def availableStock_def

lemmas cart_defs = handleAddToCart_def addToCart_def same_line_def dispensed_def
  addNotification_def

section \<open>Properties of the FEFO loop\<close>

lemma fefo_loop_nonpositive:
  "r \<le> 0 \<Longrightarrow> fefo_loop bs acc r = (acc, r)"
  by (cases bs) simp_all

lemma fefo_loop_acc:
  "fefo_loop bs acc r = (acc @ fst (fefo_loop bs [] r), snd (fefo_loop bs [] r))"
proof (induction bs arbitrary: acc r)
  case Nil
  show ?case by simp
next
  case (Cons b bs)
  show ?case
  proof (cases "r \<le> 0")
    case True
    then show ?thesis by simp
  next
    case False
    let ?q = "min r (b_currentStock b)"
    let ?b' = "b\<lparr>b_quantityToDispense := Some ?q\<rparr>"
    have one: "fefo_loop bs (acc @ [?b']) (r - ?q)
        = ((acc @ [?b']) @ fst (fefo_loop bs [] (r - ?q)), snd (fefo_loop bs [] (r - ?q)))"
      by (rule Cons.IH)
    have two: "fefo_loop bs [?b'] (r - ?q)
        = ([?b'] @ fst (fefo_loop bs [] (r - ?q)), snd (fefo_loop bs [] (r - ?q)))"
      by (rule Cons.IH)
    from False one two show ?thesis by (simp add: Let_def)
  qed
qed

lemma fefo_loop_Cons:
  "fefo_loop (b # bs) [] r =
     (if r \<le> 0 then ([], r)
      else (b\<lparr>b_quantityToDispense := Some (min r (b_currentStock b))\<rparr>
              # fst (fefo_loop bs [] (r - min r (b_currentStock b))),
            snd (fefo_loop bs [] (r - min r (b_currentStock b)))))"
  using fefo_loop_acc [of bs "[b\<lparr>b_quantityToDispense := Some (min r (b_currentStock b))\<rparr>]"
      "r - min r (b_currentStock b)"]
  by (simp add: Let_def)

lemma fefo_loop_remaining:
  "snd (fefo_loop bs [] r) = r - sum_list (map dispensed (fst (fefo_loop bs [] r)))"
proof (induction bs arbitrary: r)
  case Nil show ?case by simp
next
  case (Cons b bs)
  show ?case
    using Cons.IH [of "r - min r (b_currentStock b)"]
    by (simp add: fefo_loop_Cons dispensed_def del: fefo_loop.simps(2))
qed

lemma fefo_loop_enough:
  "0 < r \<Longrightarrow> r \<le> sum_list (map b_currentStock bs) \<Longrightarrow> snd (fefo_loop bs [] r) = 0"
proof (induction bs arbitrary: r)
  case Nil then show ?case by simp
next
  case (Cons b bs)
  show ?case
  proof (cases "r \<le> b_currentStock b")
    case True
    with Cons.prems show ?thesis
      by (simp add: fefo_loop_Cons fefo_loop_nonpositive del: fefo_loop.simps(2))
  next
    case False
    then have q: "min r (b_currentStock b) = b_currentStock b" by simp
    have "snd (fefo_loop bs [] (r - b_currentStock b)) = 0"
      using False Cons.prems by (intro Cons.IH) simp_all
    with Cons.prems q show ?thesis
      by (simp add: fefo_loop_Cons del: fefo_loop.simps(2))
  qed
qed

lemma fefo_loop_short:
  "\<forall>b \<in> set bs. 0 < b_currentStock b \<Longrightarrow> sum_list (map b_currentStock bs) < r \<Longrightarrow>
   fefo_loop bs [] r =
     (map (\<lambda>b. b\<lparr>b_quantityToDispense := Some (b_currentStock b)\<rparr>) bs,
      r - sum_list (map b_currentStock bs))"
proof (induction bs arbitrary: r)
  case Nil then show ?case by simp
next
  case (Cons b bs)
  have nonneg: "0 \<le> sum_list (map b_currentStock bs)"
    using Cons.prems(1) by (intro sum_list_nonneg) auto
  have pos: "0 < b_currentStock b" using Cons.prems(1) by simp
  have less: "b_currentStock b < r" using Cons.prems(2) nonneg by simp
  then have q: "min r (b_currentStock b) = b_currentStock b" by simp
  have IH: "fefo_loop bs [] (r - b_currentStock b) =
     (map (\<lambda>b. b\<lparr>b_quantityToDispense := Some (b_currentStock b)\<rparr>) bs,
      r - b_currentStock b - sum_list (map b_currentStock bs))"
    using Cons.prems by (intro Cons.IH) simp_all
  from pos less q IH show ?case
    by (simp add: fefo_loop_Cons del: fefo_loop.simps(2))
qed

lemma fefo_loop_length: "length (fst (fefo_loop bs [] r)) \<le> length bs"
  by (induction bs arbitrary: r) (simp_all add: fefo_loop_Cons del: fefo_loop.simps(2))

lemma fefo_loop_nth:
  "i < length (fst (fefo_loop bs [] r)) \<Longrightarrow>
   fst (fefo_loop bs [] r) ! i =
     (bs ! i)\<lparr>b_quantityToDispense :=
        Some (min (r - sum_list (map b_currentStock (take i bs))) (b_currentStock (bs ! i)))\<rparr>"
proof (induction bs arbitrary: r i)
  case Nil then show ?case by simp
next
  case (Cons b bs)
  from Cons.prems have rpos: "\<not> r \<le> 0"
    by (auto simp: fefo_loop_Cons simp del: fefo_loop.simps(2) split: if_splits)
  show ?case
  proof (cases i)
    case 0
    with rpos show ?thesis by (simp add: fefo_loop_Cons del: fefo_loop.simps(2))
  next
    case (Suc j)
    let ?r' = "r - min r (b_currentStock b)"
    from Cons.prems Suc rpos have j: "j < length (fst (fefo_loop bs [] ?r'))"
      by (simp add: fefo_loop_Cons del: fefo_loop.simps(2))
    have "\<not> ?r' \<le> 0"
    proof
      assume "?r' \<le> 0"
      then have "fst (fefo_loop bs [] ?r') = []" by (simp add: fefo_loop_nonpositive)
      with j show False by simp
    qed
    then have q: "min r (b_currentStock b) = b_currentStock b" by (simp add: min_def split: if_splits)
    from Cons.IH [OF j] Suc rpos q show ?thesis
      by (simp add: fefo_loop_Cons algebra_simps del: fefo_loop.simps(2))
  qed
qed

lemma fefo_loop_expiry:
  "map b_expiryDate (fst (fefo_loop bs [] r))
     = take (length (fst (fefo_loop bs [] r))) (map b_expiryDate bs)"
  by (induction bs arbitrary: r) (simp_all add: fefo_loop_Cons del: fefo_loop.simps(2))

lemma sum_list_insort_key:
  "sum_list (map f (insort_key k x xs)) = f x + sum_list (map (f :: 'a \<Rightarrow> int) xs)"
  by (induction xs) simp_all

lemma sum_list_sort_key:
  "sum_list (map f (sort_key k xs)) = sum_list (map (f :: 'a \<Rightarrow> int) xs)"
  by (induction xs) (simp_all add: sum_list_insort_key)

lemma candidates_sum:
  "sum_list (map b_currentStock (fefo_candidates now rows medicineId))
     = availableStock now rows medicineId"
  by (simp add: fefo_candidates_def availableStock_def sortBy_expiryDate_def sum_list_sort_key)

lemma candidates_sorted: "sorted (map b_expiryDate (fefo_candidates now rows medicineId))"
  by (simp add: fefo_candidates_def sortBy_expiryDate_def)

lemma candidates_eligible:
  "b \<in> set (fefo_candidates now rows medicineId) \<longleftrightarrow>
     b \<in> set rows \<and> b_medicineId b = medicineId \<and> 0 < b_currentStock b \<and> now < b_expiryDate b"
  by (auto simp: fefo_candidates_def sortBy_expiryDate_def where_medicineId_equals_def)

lemma fefo_loop_from:
  "s \<in> set (fst (fefo_loop bs [] r)) \<Longrightarrow>
   \<exists>b \<in> set bs. \<exists>k. s = b\<lparr>b_quantityToDispense := Some k\<rparr>"
proof (induction bs arbitrary: r)
  case Nil then show ?case by simp
next
  case (Cons b bs)
  then show ?case
    by (fastforce simp: fefo_loop_Cons simp del: fefo_loop.simps(2) split: if_splits)
qed

lemma distinct_key_eq:
  "distinct (map f xs) \<Longrightarrow> x \<in> set xs \<Longrightarrow> y \<in> set xs \<Longrightarrow> f x = f y \<Longrightarrow> x = y"
  by (meson distinct_map inj_onD)

lemma addToCart_batches: "batches (addToCart medicine batch quantity st) = batches st"
  by (simp add: addToCart_def split: option.splits)

lemma addSelectedToCart_batches: "batches (addSelectedToCart medicine selected st) = batches st"
  by (induction selected arbitrary: st) (simp_all add: addToCart_batches)

lemma handleAddToCart_batches: "batches (handleAddToCart now medicine quantity st) = batches st"
  by (simp add: handleAddToCart_def addNotification_def addSelectedToCart_batches
      split: sum.splits fefo_error.splits)

section \<open>FEFO selection: the claims\<close>

text \<open>
  Claim C1, as amended. For every medicine and every requested quantity \<open>q > 0\<close> that
  the stock of the eligible batches (stock above zero, expiry after the clock reading)
  covers, \<open>selectBatchesForSale\<close> returns batches in ascending order of expiry date,
  batches with equal expiry dates being allowed next to each other; the result is an
  initial part of the sorted candidates, the batch at position \<open>i\<close> carries the
  quantity \<open>min remaining currentStock\<close>, where \<open>remaining\<close> is \<open>q\<close> less the
  stock of the candidates before it; and the quantities add up to \<open>q\<close>.
\<close>

theorem C1_fefo_allocation:
  assumes "0 < quantity"
    and "quantity \<le> availableStock now rows medicineId"
  shows "\<exists>selected.
      selectBatchesForSale now rows medicineId quantity = Inr selected
    \<and> sorted (map b_expiryDate selected)
    \<and> length selected \<le> length (fefo_candidates now rows medicineId)
    \<and> (\<forall>i < length selected.
          selected ! i = (fefo_candidates now rows medicineId ! i)
            \<lparr>b_quantityToDispense := Some
               (min (quantity - sum_list (map b_currentStock
                                      (take i (fefo_candidates now rows medicineId))))
                    (b_currentStock (fefo_candidates now rows medicineId ! i)))\<rparr>)
    \<and> sum_list (map dispensed selected) = quantity"
proof -
  let ?cands = "fefo_candidates now rows medicineId"
  let ?sel = "fst (fefo_loop ?cands [] quantity)"
  have rem: "snd (fefo_loop ?cands [] quantity) = 0"
    using assms by (intro fefo_loop_enough) (simp_all add: candidates_sum)
  then have res: "selectBatchesForSale now rows medicineId quantity = Inr ?sel"
    by (simp add: selectBatchesForSale_def split_beta)
  have "sorted (take (length ?sel) (map b_expiryDate ?cands))"
    using candidates_sorted by (rule sorted_wrt_take)
  then have srt: "sorted (map b_expiryDate ?sel)"
    using fefo_loop_expiry [of ?cands quantity] by simp
  have total: "sum_list (map dispensed ?sel) = quantity"
    using fefo_loop_remaining [of ?cands quantity] rem by simp
  from res srt total fefo_loop_length [of ?cands quantity] fefo_loop_nth [of _ ?cands quantity]
  show ?thesis by blast
qed

theorem C1_fefo_allocation_witness:
  "0 < (8::int) \<and> 8 \<le> availableStock jan2024 scenarioRows ''1''
   \<and> fefo_candidates jan2024 scenarioRows ''1'' =
        [stockBatch ''B'' ''1'' jan2025 5, stockBatch ''A'' ''1'' jun2025 10]
   \<and> (\<exists>selected.
         selectBatchesForSale jan2024 scenarioRows ''1'' 8 = Inr selected
       \<and> sorted (map b_expiryDate selected)
       \<and> sum_list (map dispensed selected) = 8)"
proof -
  have pos: "0 < (8::int)" by simp
  have av: "8 \<le> availableStock jan2024 scenarioRows ''1''"
    by (simp add: fefo_defs fixture_defs)
  have cands: "fefo_candidates jan2024 scenarioRows ''1'' =
      [stockBatch ''B'' ''1'' jan2025 5, stockBatch ''A'' ''1'' jun2025 10]"
    by (simp add: fefo_defs fixture_defs)
  from C1_fefo_allocation [OF pos av] pos av cands show ?thesis by blast
qed

text \<open>
  The claim as it stands asks for a strictly ascending order. Two batches of one
  medicine that expire on the same day are both selected, one after the other.
\<close>

theorem C1_strict_order_counterexample:
  "0 < (8::int) \<and> 8 \<le> availableStock jan2024 tiedRows ''1''
   \<and> selectBatchesForSale jan2024 tiedRows ''1'' 8 =
       Inr [(stockBatch ''A'' ''1'' jan2025 5)\<lparr>b_quantityToDispense := Some 5\<rparr>,
            (stockBatch ''B'' ''1'' jan2025 10)\<lparr>b_quantityToDispense := Some 3\<rparr>]
   \<and> \<not> sorted_wrt (<) (map b_expiryDate
       [(stockBatch ''A'' ''1'' jan2025 5)\<lparr>b_quantityToDispense := Some 5\<rparr>,
        (stockBatch ''B'' ''1'' jan2025 10)\<lparr>b_quantityToDispense := Some 3\<rparr>])"
  by (simp add: fefo_defs fixture_defs)

text \<open>
  Claim C2. Whatever the medicine and the requested quantity, every batch in the result
  of \<open>selectBatchesForSale\<close> is a row of the medicine with stock above zero and an
  expiry date after the clock reading, with only its \<open>quantityToDispense\<close> set. So a
  row that has expired or holds no stock is not in the result, however early its
  expiry date and however large its stock: where the keys of the table are distinct,
  no selected batch has the key of such a row.
\<close>

theorem C2_ineligible_batches_never_selected:
  assumes "selectBatchesForSale now rows medicineId quantity = Inr selected"
    and "s \<in> set selected"
  shows "0 < b_currentStock s \<and> now < b_expiryDate s
       \<and> (\<exists>b \<in> set rows. \<exists>k. s = b\<lparr>b_quantityToDispense := Some k\<rparr>
             \<and> b_medicineId b = medicineId \<and> 0 < b_currentStock b \<and> now < b_expiryDate b)
       \<and> (distinct (map b_id rows) \<longrightarrow>
            (\<forall>b \<in> set rows. b_expiryDate b \<le> now \<or> b_currentStock b \<le> 0
                \<longrightarrow> b_id s \<noteq> b_id b))"
proof -
  let ?cands = "fefo_candidates now rows medicineId"
  from assms(1) have "selected = fst (fefo_loop ?cands [] quantity)"
    by (auto simp: selectBatchesForSale_def Let_def split_beta split: if_splits)
  with assms(2) obtain b k where b: "b \<in> set ?cands"
    and s: "s = b\<lparr>b_quantityToDispense := Some k\<rparr>"
    using fefo_loop_from by blast
  from b have elig: "b \<in> set rows" "b_medicineId b = medicineId"
    "0 < b_currentStock b" "now < b_expiryDate b"
    by (simp_all add: candidates_eligible)
  have other: "b_id s \<noteq> b_id c"
    if d: "distinct (map b_id rows)" and c: "c \<in> set rows"
      and bad: "b_expiryDate c \<le> now \<or> b_currentStock c \<le> 0" for c
  proof
    assume "b_id s = b_id c"
    with s have "b_id b = b_id c" by simp
    with d elig(1) c have "b = c" by (rule distinct_key_eq)
    with elig bad show False by auto
  qed
  from s elig other show ?thesis by auto
qed

theorem C2_ineligible_batches_never_selected_witness:
  "selectBatchesForSale jan2024 expiredRows ''1'' 20 =
     Inr [(stockBatch ''C'' ''1'' jan2025 20)\<lparr>b_quantityToDispense := Some 20\<rparr>]
   \<and> distinct (map b_id expiredRows)
   \<and> stockBatch ''A'' ''1'' jan2020 500 \<in> set expiredRows
   \<and> b_expiryDate (stockBatch ''A'' ''1'' jan2020 500) \<le> jan2024
   \<and> b_id ((stockBatch ''C'' ''1'' jan2025 20)\<lparr>b_quantityToDispense := Some 20\<rparr>)
       \<noteq> b_id (stockBatch ''A'' ''1'' jan2020 500)
   \<and> jan2024 < b_expiryDate ((stockBatch ''C'' ''1'' jan2025 20)\<lparr>b_quantityToDispense := Some 20\<rparr>)"
proof -
  have sel: "selectBatchesForSale jan2024 expiredRows ''1'' 20 =
     Inr [(stockBatch ''C'' ''1'' jan2025 20)\<lparr>b_quantityToDispense := Some 20\<rparr>]"
    by (simp add: fefo_defs fixture_defs)
  have mem: "(stockBatch ''C'' ''1'' jan2025 20)\<lparr>b_quantityToDispense := Some 20\<rparr>
      \<in> set [(stockBatch ''C'' ''1'' jan2025 20)\<lparr>b_quantityToDispense := Some 20\<rparr>]"
    by simp
  have d: "distinct (map b_id expiredRows)"
    by (simp add: fixture_defs)
  have e: "stockBatch ''A'' ''1'' jan2020 500 \<in> set expiredRows"
    by (simp add: expiredRows_def)
  have old: "b_expiryDate (stockBatch ''A'' ''1'' jan2020 500) \<le> jan2024"
    by (simp add: fixture_defs)
  from C2_ineligible_batches_never_selected [OF sel mem] d e old sel
  show ?thesis by blast
qed

text \<open>
  Claim C3. For every medicine and every requested quantity \<open>q > 0\<close> above the stock of
  the eligible batches, \<open>selectBatchesForSale\<close> fails with the insufficient stock error,
  which carries \<open>q\<close> less the available stock. The selection only reads the table:
  after \<open>handleAddToCart\<close>, which calls it, the table of batches is the one before the
  call, for this and for any other quantity, and on the failure the cart is as
  before too.
\<close>

theorem C3_insufficient_stock:
  assumes "0 < quantity"
    and "availableStock now (batches st) (m_id medicine) < quantity"
  shows "selectBatchesForSale now (batches st) (m_id medicine) quantity =
           Inl (InsufficientStock (quantity - availableStock now (batches st) (m_id medicine)))
       \<and> batches (handleAddToCart now medicine quantity st) = batches st
       \<and> batches (handleAddToCart now medicine other st) = batches st
       \<and> cartItems (handleAddToCart now medicine quantity st) = cartItems st"
proof -
  let ?cands = "fefo_candidates now (batches st) (m_id medicine)"
  let ?avail = "availableStock now (batches st) (m_id medicine)"
  have "\<forall>b \<in> set ?cands. 0 < b_currentStock b"
    by (simp add: candidates_eligible)
  moreover have "sum_list (map b_currentStock ?cands) < quantity"
    using assms(2) by (simp add: candidates_sum)
  ultimately have "snd (fefo_loop ?cands [] quantity) = quantity - ?avail"
    by (simp add: fefo_loop_short candidates_sum)
  with assms(2) have res: "selectBatchesForSale now (batches st) (m_id medicine) quantity =
           Inl (InsufficientStock (quantity - ?avail))"
    by (simp add: selectBatchesForSale_def split_beta)
  then have "cartItems (handleAddToCart now medicine quantity st) = cartItems st"
    by (simp add: handleAddToCart_def addNotification_def)
  with res show ?thesis
    by (simp add: handleAddToCart_batches)
qed

theorem C3_insufficient_stock_witness:
  "0 < (4::int) \<and> availableStock jan2024 (batches (shop unsellableRows)) ''1'' < 4
   \<and> selectBatchesForSale jan2024 (batches (shop unsellableRows)) ''1'' 4
        = Inl (InsufficientStock 4)
   \<and> batches (handleAddToCart jan2024 (paracetamol jan2024) 4 (shop unsellableRows))
        = unsellableRows"
proof -
  have pos: "0 < (4::int)" by simp
  have av: "availableStock jan2024 (batches (shop unsellableRows)) ''1'' = 0"
    by (simp add: fefo_defs fixture_defs sample_defs)
  have m: "m_id (paracetamol jan2024) = ''1''"
    by (simp add: paracetamol_def)
  have less: "availableStock jan2024 (batches (shop unsellableRows))
      (m_id (paracetamol jan2024)) < 4"
    using av m by simp
  have rows: "batches (shop unsellableRows) = unsellableRows"
    by (simp add: sample_defs)
  from C3_insufficient_stock [OF pos less, of 4] av m rows show ?thesis by simp
qed

text \<open>
  Claim C10. For every medicine and every requested quantity \<open>q \<le> 0\<close>,
  \<open>selectBatchesForSale\<close> returns the empty list and raises no error, whatever the
  table holds; the quantity is not validated.
\<close>

theorem C10_nonpositive_quantity_selects_nothing:
  "quantity \<le> 0 \<Longrightarrow> selectBatchesForSale now rows medicineId quantity = Inr []"
  by (simp add: selectBatchesForSale_def fefo_loop_nonpositive)

theorem C10_nonpositive_quantity_selects_nothing_witness:
  "(-3::int) \<le> 0 \<and> selectBatchesForSale jan2024 scenarioRows ''1'' (-3) = Inr []
   \<and> 0 < availableStock jan2024 scenarioRows ''1''"
proof -
  have neg: "(-3::int) \<le> 0" by simp
  have av: "0 < availableStock jan2024 scenarioRows ''1''"
    by (simp add: fefo_defs fixture_defs)
  from C10_nonpositive_quantity_selects_nothing [OF neg] av show ?thesis by simp
qed

section \<open>Properties of checkout\<close>

lemma batches_get_None: "batches_get rows key = None \<longleftrightarrow> key \<notin> b_id ` set rows"
  by (auto simp: batches_get_def find_None_iff)

lemma batches_get_Some:
  "batches_get rows key = Some batch \<Longrightarrow> batch \<in> set rows \<and> b_id batch = key"
  by (auto simp: batches_get_def find_Some_iff)

lemma update_is_decrement:
  assumes "distinct (map b_id rows)" and "batches_get rows key = Some batch"
  shows "batches_update_currentStock rows key (b_currentStock batch - q) = decrementStock key q rows"
proof -
  from assms(2) have b: "batch \<in> set rows" "b_id batch = key"
    by (simp_all add: batches_get_Some)
  have "b = batch" if "b \<in> set rows" "b_id b = key" for b
    using assms(1) that(1) b(1) by (rule distinct_key_eq) (simp add: that b)
  then show ?thesis
    by (auto simp: batches_update_currentStock_def decrementStock_def)
qed

lemma decrement_absent: "key \<notin> b_id ` set rows \<Longrightarrow> decrementStock key q rows = rows"
  by (induction rows) (auto simp: decrementStock_def)

lemma decrement_keys: "map b_id (decrementStock key q rows) = map b_id rows"
  by (simp add: decrementStock_def)

lemma update_keys: "map b_id (batches_update_currentStock rows key v) = map b_id rows"
  by (simp add: batches_update_currentStock_def)

lemma updateStockLevels_keys: "map b_id (updateStockLevels items rows) = map b_id rows"
  by (induction items arbitrary: rows) (simp_all add: update_keys split: option.splits)

lemma updateStockLevels_step:
  assumes "distinct (map b_id rows)"
  shows "updateStockLevels (item # rest) rows =
     updateStockLevels rest (decrementStock (b_id (ci_batch item)) (ci_quantity item) rows)"
proof (cases "batches_get rows (b_id (ci_batch item))")
  case None
  then have "b_id (ci_batch item) \<notin> b_id ` set rows" by (simp add: batches_get_None)
  with None show ?thesis by (simp add: decrement_absent)
next
  case (Some batch)
  with assms show ?thesis by (simp add: update_is_decrement)
qed

lemma updateStockLevels_append:
  "updateStockLevels (pre @ post) rows = updateStockLevels post (updateStockLevels pre rows)"
  by (induction pre arbitrary: rows) (simp_all split: option.splits)

lemma updateStockLevels_total:
  "distinct (map b_id rows) \<Longrightarrow>
   updateStockLevels items rows =
     map (\<lambda>b. b\<lparr>b_currentStock := b_currentStock b - soldFrom items (b_id b)\<rparr>) rows"
proof (induction items arbitrary: rows)
  case Nil
  show ?case by (simp add: soldFrom_def map_idI)
next
  case (Cons item rest)
  let ?rows' = "decrementStock (b_id (ci_batch item)) (ci_quantity item) rows"
  have d: "distinct (map b_id ?rows')" using Cons.prems by (simp add: decrement_keys)
  have "updateStockLevels (item # rest) rows = updateStockLevels rest ?rows'"
    using Cons.prems by (rule updateStockLevels_step)
  also have "\<dots> = map (\<lambda>b. b\<lparr>b_currentStock := b_currentStock b - soldFrom rest (b_id b)\<rparr>) ?rows'"
    using d by (rule Cons.IH)
  also have "\<dots> = map (\<lambda>b. b\<lparr>b_currentStock := b_currentStock b - soldFrom (item # rest) (b_id b)\<rparr>) rows"
    by (simp add: decrementStock_def soldFrom_def)
  finally show ?case .
qed

lemma sum_list_key_hit:
  "distinct (map f xs) \<Longrightarrow>
   sum_list (map (\<lambda>x. if f x = k then q else 0) xs) = (if k \<in> f ` set xs then q else (0::int))"
  by (induction xs) auto

lemma soldFrom_sum:
  "distinct (map b_id rows) \<Longrightarrow>
   sum_list (map (\<lambda>b. soldFrom items (b_id b)) rows) =
     sum_list (map ci_quantity (filter (\<lambda>item. b_id (ci_batch item) \<in> b_id ` set rows) items))"
proof (induction items)
  case Nil
  show ?case by (simp add: soldFrom_def)
next
  case (Cons item rest)
  have split: "soldFrom (item # rest) k =
      (if b_id (ci_batch item) = k then ci_quantity item else 0) + soldFrom rest k" for k
    by (simp add: soldFrom_def)
  have hit: "sum_list (map (\<lambda>b. if b_id (ci_batch item) = b_id b then ci_quantity item else 0) rows)
      = (if b_id (ci_batch item) \<in> b_id ` set rows then ci_quantity item else 0)"
    using sum_list_key_hit [OF Cons.prems, of "b_id (ci_batch item)" "ci_quantity item"]
    by (simp add: eq_commute)
  show ?case
    using Cons.IH [OF Cons.prems] hit
    by (simp add: split sum_list_addf)
qed

lemma processSale_batches:
  "cartItems st \<noteq> [] \<Longrightarrow>
   batches (snd (processSale now st)) = updateStockLevels (cartItems st) (batches st)"
  by (simp add: processSale_def Let_def clearCart_def addNotification_def)

lemma processSale_succeeds:
  "cartItems st \<noteq> [] \<Longrightarrow> \<not> isl (fst (processSale now st))"
  by (simp add: processSale_def Let_def)

lemma processSale_items:
  "cartItems st \<noteq> [] \<Longrightarrow>
   s_items (projr (fst (processSale now st))) = map makeSaleItem (cartItems st)"
  by (simp add: processSale_def Let_def)

lemma processSale_entries:
  "cartItems st \<noteq> [] \<Longrightarrow>
   scheduleH1Entries (snd (processSale now st)) =
     addScheduleH1Entries now (customerName st) (doctorName st) (prescriptionNumber st)
       (cartItems st) (scheduleH1Entries st)"
  by (simp add: processSale_def Let_def clearCart_def addNotification_def)

lemma processSale_notifications:
  "cartItems st \<noteq> [] \<Longrightarrow>
   notifications (snd (processSale now st)) = notifications st @ [(NSuccess, SaleCompleted now)]"
  by (simp add: processSale_def Let_def clearCart_def addNotification_def)

lemma processSale_success_iff:
  "(\<exists>sale. fst (processSale now st) = Inr sale) \<longleftrightarrow> cartItems st \<noteq> []"
  by (simp add: processSale_def Let_def)

lemma processSale_InrD: "fst (processSale now st) = Inr sale \<Longrightarrow> cartItems st \<noteq> []"
  using processSale_success_iff by blast

lemma updateStockLevels_skip:
  assumes "b_id (ci_batch item) \<notin> b_id ` set rows"
  shows "updateStockLevels (pre @ item # post) rows = updateStockLevels (pre @ post) rows"
proof -
  let ?mid = "updateStockLevels pre rows"
  have "set (map b_id ?mid) = set (map b_id rows)"
    by (simp only: updateStockLevels_keys)
  with assms have "b_id (ci_batch item) \<notin> b_id ` set ?mid" by simp
  then have "batches_get ?mid (b_id (ci_batch item)) = None"
    by (simp add: batches_get_None)
  then show ?thesis by (simp add: updateStockLevels_append)
qed

lemma addToCart_keeps:
  "scheduleH1Entries (addToCart medicine batch quantity st) = scheduleH1Entries st"
  "sales (addToCart medicine batch quantity st) = sales st"
  "medicines (addToCart medicine batch quantity st) = medicines st"
  "customerName (addToCart medicine batch quantity st) = customerName st"
  "doctorName (addToCart medicine batch quantity st) = doctorName st"
  "prescriptionNumber (addToCart medicine batch quantity st) = prescriptionNumber st"
  "discount (addToCart medicine batch quantity st) = discount st"
  by (simp_all add: addToCart_def split: option.splits)

lemma addSelectedToCart_keeps:
  "scheduleH1Entries (addSelectedToCart medicine selected st) = scheduleH1Entries st"
  "sales (addSelectedToCart medicine selected st) = sales st"
  "medicines (addSelectedToCart medicine selected st) = medicines st"
  "customerName (addSelectedToCart medicine selected st) = customerName st"
  "doctorName (addSelectedToCart medicine selected st) = doctorName st"
  "prescriptionNumber (addSelectedToCart medicine selected st) = prescriptionNumber st"
  "discount (addSelectedToCart medicine selected st) = discount st"
  by (induction selected arbitrary: st) (simp_all add: addToCart_keeps)

lemma handleAddToCart_keeps:
  "scheduleH1Entries (handleAddToCart now medicine quantity st) = scheduleH1Entries st"
  "sales (handleAddToCart now medicine quantity st) = sales st"
  "medicines (handleAddToCart now medicine quantity st) = medicines st"
  "customerName (handleAddToCart now medicine quantity st) = customerName st"
  "doctorName (handleAddToCart now medicine quantity st) = doctorName st"
  "prescriptionNumber (handleAddToCart now medicine quantity st) = prescriptionNumber st"
  "discount (handleAddToCart now medicine quantity st) = discount st"
  by (simp_all add: handleAddToCart_def addNotification_def addSelectedToCart_keeps
      split: sum.splits fefo_error.splits)

lemma addScheduleH1Entries_eq:
  "addScheduleH1Entries now cName dName pNumber items rows =
     rows @ map (\<lambda>item.
        \<lparr>h_medicineId = m_id (ci_medicine item),
         h_medicineName = m_brandName (ci_medicine item),
         h_batchNumber = b_batchNumber (ci_batch item),
         h_customerName = js_or cName ''Walk-in Customer'',
         h_doctorName = js_or dName ''Not specified'',
         h_prescriptionNumber = js_or pNumber ''Not provided'',
         h_quantityDispensed = ci_quantity item,
         h_dispensedDate = now,
         h_pharmacistSignature = ''System''\<rparr>)
       (filter (\<lambda>item. m_scheduleType (ci_medicine item) = H1) items)"
  by (induction items arbitrary: rows) (simp_all add: addEntry_def)

subsection \<open>The example carts\<close>

lemma scenarioCart_items:
  "cartItems scenarioCart =
     [\<lparr>ci_medicine = paracetamol jan2024,
       ci_batch = (stockBatch ''B'' ''1'' jan2025 5)\<lparr>b_quantityToDispense := Some 5\<rparr>,
       ci_quantity = 5\<rparr>,
      \<lparr>ci_medicine = paracetamol jan2024,
       ci_batch = (stockBatch ''A'' ''1'' jun2025 10)\<lparr>b_quantityToDispense := Some 3\<rparr>,
       ci_quantity = 3\<rparr>]"
  by (simp add: scenarioCart_def cart_defs fefo_defs fixture_defs sample_defs)

lemma scenarioCart_batches: "batches scenarioCart = scenarioRows"
  by (simp add: scenarioCart_def handleAddToCart_batches sample_defs)

lemma doubleCart_items:
  "cartItems doubleCart =
     [\<lparr>ci_medicine = paracetamol jan2024,
       ci_batch = (hd (sampleBatches jan2024))\<lparr>b_quantityToDispense := Some 60\<rparr>,
       ci_quantity = 120\<rparr>]"
  by (simp add: doubleCart_def sampleShop_def cart_defs fefo_defs date_defs sample_defs)

lemma doubleCart_batches: "batches doubleCart = sampleBatches jan2024"
  by (simp add: doubleCart_def sampleShop_def handleAddToCart_batches sample_defs)

lemma mixedCart_items:
  "cartItems mixedCart =
     [\<lparr>ci_medicine = paracetamol jan2024,
       ci_batch = (sampleBatches jan2024 ! 0)\<lparr>b_quantityToDispense := Some 1\<rparr>,
       ci_quantity = 1\<rparr>,
      \<lparr>ci_medicine = alprazolam jan2024,
       ci_batch = (sampleBatches jan2024 ! 1)\<lparr>b_quantityToDispense := Some 2\<rparr>,
       ci_quantity = 2\<rparr>]"
  by (simp add: mixedCart_def sampleShop_def cart_defs fefo_defs date_defs sample_defs)

lemma crocinCart_items:
  "cartItems crocinCart =
     [\<lparr>ci_medicine = paracetamol jan2024,
       ci_batch = (hd (sampleBatches jan2024))\<lparr>b_quantityToDispense := Some 2\<rparr>,
       ci_quantity = 2\<rparr>]"
  by (simp add: crocinCart_def sampleShop_def cart_defs fefo_defs date_defs sample_defs)

lemma raisedCart_items:
  "cartItems raisedCart =
     [\<lparr>ci_medicine = paracetamol jan2024,
       ci_batch = (hd (sampleBatches jan2024))\<lparr>b_quantityToDispense := Some 5\<rparr>,
       ci_quantity = 150\<rparr>]"
  by (simp add: raisedCart_def sampleShop_def updateQuantity_def removeFromCart_def cart_defs
      fefo_defs date_defs sample_defs)

lemma raisedCart_batches: "batches raisedCart = sampleBatches jan2024"
  by (simp add: raisedCart_def sampleShop_def updateQuantity_def removeFromCart_def
      addToCart_def handleAddToCart_batches sample_defs split: option.splits)

section \<open>Checkout: the claims\<close>

text \<open>
  Claim C4, as amended. The keys of the table of batches being distinct, as primary
  keys are, after every successful \<open>processSale\<close> each row of the table has its
  \<open>currentStock\<close> lowered by the quantities of the cart lines that refer to its key,
  every line lowering the value stored just before it; the total decrease of stock
  is the total quantity of the cart lines whose batch has a row in the table, which
  is the total quantity sold in the sale when every line has such a row; and a row
  to which no cart line refers is unchanged.
\<close>

theorem C4_stock_conservation:
  assumes "fst (processSale now st) = Inr sale"
    and "distinct (map b_id (batches st))"
  shows "batches (snd (processSale now st)) =
           map (\<lambda>b. b\<lparr>b_currentStock := b_currentStock b - soldFrom (cartItems st) (b_id b)\<rparr>)
             (batches st)
       \<and> sum_list (map b_currentStock (batches st))
           - sum_list (map b_currentStock (batches (snd (processSale now st))))
         = sum_list (map ci_quantity
             (filter (\<lambda>item. b_id (ci_batch item) \<in> b_id ` set (batches st)) (cartItems st)))
       \<and> ((\<forall>item \<in> set (cartItems st). b_id (ci_batch item) \<in> b_id ` set (batches st)) \<longrightarrow>
            sum_list (map b_currentStock (batches st))
              - sum_list (map b_currentStock (batches (snd (processSale now st))))
            = sum_list (map si_quantity (s_items sale)))
       \<and> (\<forall>b \<in> set (batches st).
            (\<forall>item \<in> set (cartItems st). b_id (ci_batch item) \<noteq> b_id b) \<longrightarrow>
            b \<in> set (batches (snd (processSale now st))))"
proof -
  let ?cart = "cartItems st" and ?rows = "batches st"
  let ?rows' = "batches (snd (processSale now st))"
  from assms(1) have cart: "?cart \<noteq> []" by (rule processSale_InrD)
  have rows': "?rows' = map (\<lambda>b. b\<lparr>b_currentStock := b_currentStock b - soldFrom ?cart (b_id b)\<rparr>) ?rows"
    using cart assms(2) by (simp add: processSale_batches updateStockLevels_total)
  have "sum_list (map b_currentStock ?rows')
      = sum_list (map (\<lambda>b. b_currentStock b - soldFrom ?cart (b_id b)) ?rows)"
    by (simp add: rows' comp_def)
  also have "\<dots> = sum_list (map b_currentStock ?rows)
      - sum_list (map (\<lambda>b. soldFrom ?cart (b_id b)) ?rows)"
    by (simp add: sum_list_subtractf)
  finally have diff: "sum_list (map b_currentStock ?rows) - sum_list (map b_currentStock ?rows')
      = sum_list (map ci_quantity
          (filter (\<lambda>item. b_id (ci_batch item) \<in> b_id ` set ?rows) ?cart))"
    using soldFrom_sum [OF assms(2), of ?cart] by simp
  have "s_items sale = map makeSaleItem ?cart"
    using processSale_items [OF cart, of now] assms(1) by simp
  then have sold: "map si_quantity (s_items sale) = map ci_quantity ?cart"
    by (simp add: makeSaleItem_def comp_def)
  have all: "sum_list (map b_currentStock ?rows) - sum_list (map b_currentStock ?rows')
      = sum_list (map si_quantity (s_items sale))"
    if "\<forall>item \<in> set ?cart. b_id (ci_batch item) \<in> b_id ` set ?rows"
  proof -
    from that have "filter (\<lambda>item. b_id (ci_batch item) \<in> b_id ` set ?rows) ?cart = ?cart"
      by (simp add: filter_id_conv)
    with diff sold show ?thesis by simp
  qed
  have same: "b \<in> set ?rows'"
    if "b \<in> set ?rows" and "\<forall>item \<in> set ?cart. b_id (ci_batch item) \<noteq> b_id b" for b
  proof -
    from that(2) have "filter (\<lambda>item. b_id (ci_batch item) = b_id b) ?cart = []"
      by (simp add: filter_empty_conv)
    then have "b\<lparr>b_currentStock := b_currentStock b - soldFrom ?cart (b_id b)\<rparr> = b"
      by (simp add: soldFrom_def)
    with that(1) show ?thesis unfolding rows' by force
  qed
  from rows' diff all same show ?thesis by blast
qed

theorem C4_stock_conservation_witness:
  "(\<exists>sale. fst (processSale jan2024 scenarioCart) = Inr sale)
   \<and> distinct (map b_id (batches scenarioCart))
   \<and> map b_currentStock (batches scenarioCart) = [10, 5, 40]
   \<and> map b_currentStock (batches (snd (processSale jan2024 scenarioCart))) = [7, 0, 40]"
proof -
  have "cartItems scenarioCart \<noteq> []" by (simp add: scenarioCart_items)
  then obtain sale where ok: "fst (processSale jan2024 scenarioCart) = Inr sale"
    using processSale_success_iff by blast
  have d: "distinct (map b_id (batches scenarioCart))"
    by (simp add: scenarioCart_batches fixture_defs)
  have before: "map b_currentStock (batches scenarioCart) = [10, 5, 40]"
    by (simp add: scenarioCart_batches fixture_defs)
  from C4_stock_conservation [OF ok d] ok d before show ?thesis
    by (simp add: scenarioCart_batches scenarioCart_items soldFrom_def fixture_defs)
qed

text \<open>
  The claim as it stands equates the decrease with the quantity sold in every
  successful sale. A cart line whose batch has no row in the table is sold and
  recorded in the sale, and no stock is lowered for it.
\<close>

theorem C4_absent_batch_counterexample:
  "\<not> isl (fst (processSale jan2024 staleCart))
   \<and> sum_list (map si_quantity (s_items (projr (fst (processSale jan2024 staleCart))))) = 3
   \<and> sum_list (map b_currentStock (batches staleCart))
       - sum_list (map b_currentStock (batches (snd (processSale jan2024 staleCart)))) = 0
   \<and> sum_list (map b_currentStock (batches staleCart))
       - sum_list (map b_currentStock (batches (snd (processSale jan2024 staleCart))))
     \<noteq> sum_list (map si_quantity (s_items (projr (fst (processSale jan2024 staleCart)))))"
proof -
  have cart: "cartItems staleCart \<noteq> []" by (simp add: staleCart_def)
  have rows: "batches (snd (processSale jan2024 staleCart)) = batches staleCart"
    by (simp add: processSale_batches [OF cart])
       (simp add: staleCart_def sample_defs fixture_defs batches_get_def)
  have sold: "map si_quantity (s_items (projr (fst (processSale jan2024 staleCart)))) = [3]"
    by (simp add: processSale_items [OF cart]) (simp add: staleCart_def makeSaleItem_def)
  from processSale_succeeds [OF cart] rows sold show ?thesis by simp
qed

text \<open>
  Claim C5. In every reachable state every batch has \<open>currentStock \<ge> 0\<close>. The code
  does not keep this: \<open>selectBatchesForSale\<close> checks the request against the stock in
  the table only, not against what the cart already holds, \<open>addToCart\<close> adds the
  quantities of the two requests, \<open>updateQuantity\<close> accepts any positive quantity, and
  \<open>processSale\<close> subtracts the line quantity without a check. From the sample
  database, sixty units added twice and sold leave the batch of a hundred at \<open>-20\<close>;
  five units added, the line raised to 150 and sold leave it at \<open>-50\<close>.
\<close>

theorem C5_oversold:
  "map b_currentStock (batches sampleShop) = [100, 50, 75]
   \<and> map ci_quantity (cartItems doubleCart) = [120]
   \<and> \<not> isl (fst (processSale jan2024 doubleCart))
   \<and> map b_currentStock (batches (snd (processSale jan2024 doubleCart))) = [-20, 50, 75]
   \<and> map ci_quantity (cartItems raisedCart) = [150]
   \<and> \<not> isl (fst (processSale jan2024 raisedCart))
   \<and> map b_currentStock (batches (snd (processSale jan2024 raisedCart))) = [-50, 50, 75]"
proof -
  have cart: "cartItems doubleCart \<noteq> []" by (simp add: doubleCart_items)
  have cart': "cartItems raisedCart \<noteq> []" by (simp add: raisedCart_items)
  have start: "map b_currentStock (batches sampleShop) = [100, 50, 75]"
    by (simp add: sampleShop_def sample_defs)
  have rows: "map b_currentStock (batches (snd (processSale jan2024 doubleCart))) = [-20, 50, 75]"
    by (simp add: processSale_batches [OF cart] doubleCart_batches doubleCart_items)
       (simp add: sample_defs batches_get_def batches_update_currentStock_def)
  have rows': "map b_currentStock (batches (snd (processSale jan2024 raisedCart))) = [-50, 50, 75]"
    by (simp add: processSale_batches [OF cart'] raisedCart_batches raisedCart_items)
       (simp add: sample_defs batches_get_def batches_update_currentStock_def)
  from processSale_succeeds [OF cart] processSale_succeeds [OF cart'] start rows rows'
  show ?thesis
    by (simp add: doubleCart_items raisedCart_items)
qed

text \<open>
  Claim C6. Every successful \<open>processSale\<close> adds to the register exactly one entry for
  each cart line whose medicine has schedule type \<open>H1\<close>, in the order of the lines,
  with \<open>quantityDispensed\<close> the quantity of the line and with an empty customer name,
  doctor name or prescription number replaced by \<open>Walk-in Customer\<close>,
  \<open>Not specified\<close> or \<open>Not provided\<close>; a sale without such a line adds no entry.
\<close>

theorem C6_schedule_h1_entries:
  assumes "fst (processSale now st) = Inr sale"
  shows "scheduleH1Entries (snd (processSale now st)) =
      scheduleH1Entries st @
      map (\<lambda>item.
        \<lparr>h_medicineId = m_id (ci_medicine item),
         h_medicineName = m_brandName (ci_medicine item),
         h_batchNumber = b_batchNumber (ci_batch item),
         h_customerName =
           (if customerName st = [] then ''Walk-in Customer'' else customerName st),
         h_doctorName = (if doctorName st = [] then ''Not specified'' else doctorName st),
         h_prescriptionNumber =
           (if prescriptionNumber st = [] then ''Not provided'' else prescriptionNumber st),
         h_quantityDispensed = ci_quantity item,
         h_dispensedDate = now,
         h_pharmacistSignature = ''System''\<rparr>)
       (filter (\<lambda>item. m_scheduleType (ci_medicine item) = H1) (cartItems st))
    \<and> length (scheduleH1Entries (snd (processSale now st))) =
        length (scheduleH1Entries st)
          + length (filter (\<lambda>item. m_scheduleType (ci_medicine item) = H1) (cartItems st))
    \<and> ((\<forall>item \<in> set (cartItems st). m_scheduleType (ci_medicine item) \<noteq> H1) \<longrightarrow>
         scheduleH1Entries (snd (processSale now st)) = scheduleH1Entries st)"
proof -
  from assms have cart: "cartItems st \<noteq> []" by (rule processSale_InrD)
  have eq: "scheduleH1Entries (snd (processSale now st)) =
      scheduleH1Entries st @
      map (\<lambda>item.
        \<lparr>h_medicineId = m_id (ci_medicine item),
         h_medicineName = m_brandName (ci_medicine item),
         h_batchNumber = b_batchNumber (ci_batch item),
         h_customerName =
           (if customerName st = [] then ''Walk-in Customer'' else customerName st),
         h_doctorName = (if doctorName st = [] then ''Not specified'' else doctorName st),
         h_prescriptionNumber =
           (if prescriptionNumber st = [] then ''Not provided'' else prescriptionNumber st),
         h_quantityDispensed = ci_quantity item,
         h_dispensedDate = now,
         h_pharmacistSignature = ''System''\<rparr>)
       (filter (\<lambda>item. m_scheduleType (ci_medicine item) = H1) (cartItems st))"
    using cart by (simp add: processSale_entries addScheduleH1Entries_eq js_or_def)
  have none: "scheduleH1Entries (snd (processSale now st)) = scheduleH1Entries st"
    if "\<forall>item \<in> set (cartItems st). m_scheduleType (ci_medicine item) \<noteq> H1"
  proof -
    from that have "filter (\<lambda>item. m_scheduleType (ci_medicine item) = H1) (cartItems st) = []"
      by (simp add: filter_empty_conv)
    with eq show ?thesis by simp
  qed
  from eq none show ?thesis by simp
qed

theorem C6_schedule_h1_entries_witness:
  "(\<exists>sale. fst (processSale jan2024 mixedCart) = Inr sale)
   \<and> map (m_scheduleType \<circ> ci_medicine) (cartItems mixedCart) = [GENERAL, H1]
   \<and> scheduleH1Entries (snd (processSale jan2024 mixedCart)) =
       [\<lparr>h_medicineId = ''2'', h_medicineName = ''Alprax'', h_batchNumber = ''ALP001'',
         h_customerName = ''Walk-in Customer'', h_doctorName = ''Not specified'',
         h_prescriptionNumber = ''Not provided'', h_quantityDispensed = 2,
         h_dispensedDate = jan2024, h_pharmacistSignature = ''System''\<rparr>]"
proof -
  have "cartItems mixedCart \<noteq> []" by (simp add: mixedCart_items)
  then obtain sale where ok: "fst (processSale jan2024 mixedCart) = Inr sale"
    using processSale_success_iff by blast
  have fields: "customerName mixedCart = []" "doctorName mixedCart = []"
    "prescriptionNumber mixedCart = []" "scheduleH1Entries mixedCart = []"
    by (simp_all add: mixedCart_def sampleShop_def handleAddToCart_keeps sample_defs)
  have kinds: "map (m_scheduleType \<circ> ci_medicine) (cartItems mixedCart) = [GENERAL, H1]"
    by (simp add: mixedCart_items sample_defs)
  from C6_schedule_h1_entries [OF ok] ok kinds show ?thesis
    by (simp add: fields mixedCart_items sample_defs)
qed

text \<open>
  Claim C7. The stored sale item's \<open>gstAmount\<close> should be the line subtotal less the
  line's share of the discount, times the GST percentage, over 100. The code computes
  it from \<open>item.totalPrice\<close>, which a cart item does not have, so every stored sale
  item has the \<open>gstAmount\<close> \<open>NaN\<close>. For two units of Crocin at 23 with 12 percent GST
  and a discount of ten percent the claimed value is \<open>4.968\<close>, which is also what
  \<open>calculateTotals\<close> adds to the tax of the sale.
\<close>

theorem C7_sale_item_gst:
  "map si_gstAmount (s_items (projr (fst (processSale jan2024 crocinCart)))) = [NaN]
   \<and> map (lineGst (discount crocinCart)) (cartItems crocinCart) = [621 / 125]
   \<and> t_gstAmount (calculateTotals crocinCart) = 621 / 125
   \<and> s_gstAmount (projr (fst (processSale jan2024 crocinCart))) = 621 / 125
   \<and> NaN \<noteq> Num (621 / 125)"
proof -
  have cart: "cartItems crocinCart \<noteq> []" by (simp add: crocinCart_items)
  have disc: "discount crocinCart = 10"
    by (simp add: crocinCart_def)
  have items: "map si_gstAmount (s_items (projr (fst (processSale jan2024 crocinCart)))) = [NaN]"
    by (simp add: processSale_items [OF cart] crocinCart_items)
       (simp add: makeSaleItem_def cartItem_totalPrice_def)
  have claimed: "map (lineGst (discount crocinCart)) (cartItems crocinCart) = [621 / 125]"
    by (simp add: disc crocinCart_items lineGst_def lineSubtotal_def sample_defs)
  have total: "t_gstAmount (calculateTotals crocinCart) = 621 / 125"
    by (simp add: calculateTotals_def Let_def disc crocinCart_items lineSubtotal_def sample_defs)
  have stored: "s_gstAmount (projr (fst (processSale jan2024 crocinCart)))
      = t_gstAmount (calculateTotals crocinCart)"
    using cart by (simp add: processSale_def Let_def)
  from items claimed total stored show ?thesis by simp
qed

text \<open>
  Claim C8, as amended. For a cart line whose batch has a row in the table when its
  turn comes, \<open>processSale\<close> lowers the \<open>currentStock\<close> of that row by the quantity of
  the line. For a line whose batch has no row, it passes over the line without an
  error: the stock after the sale is what it would be had the line not been in the
  cart. In both cases the sale is stored with every line in it and the success
  notification is given.
\<close>

theorem C8_stock_update_or_skip:
  assumes "cartItems st = pre @ item # post"
  shows "(\<exists>sale. fst (processSale now st) = Inr sale
            \<and> sale \<in> set (sales (snd (processSale now st)))
            \<and> map si_quantity (s_items sale) = map ci_quantity (cartItems st))
       \<and> (NSuccess, SaleCompleted now) \<in> set (notifications (snd (processSale now st)))
       \<and> (b_id (ci_batch item) \<notin> b_id ` set (batches st) \<longrightarrow>
            batches (snd (processSale now st)) = updateStockLevels (pre @ post) (batches st))
       \<and> (b_id (ci_batch item) \<in> b_id ` set (batches st) \<and> distinct (map b_id (batches st)) \<longrightarrow>
            batches (snd (processSale now st)) =
              updateStockLevels post
                (decrementStock (b_id (ci_batch item)) (ci_quantity item)
                   (updateStockLevels pre (batches st))))"
proof -
  from assms have cart: "cartItems st \<noteq> []" by simp
  have rows: "batches (snd (processSale now st)) =
      updateStockLevels (pre @ item # post) (batches st)"
    using processSale_batches [OF cart, of now] assms by simp
  have sale: "\<exists>sale. fst (processSale now st) = Inr sale
      \<and> sale \<in> set (sales (snd (processSale now st)))
      \<and> map si_quantity (s_items sale) = map ci_quantity (cartItems st)"
    using cart
    by (simp add: processSale_def Let_def clearCart_def addNotification_def
        makeSaleItem_def comp_def)
  have msg: "(NSuccess, SaleCompleted now) \<in> set (notifications (snd (processSale now st)))"
    using cart by (simp add: processSale_notifications)
  have absent: "batches (snd (processSale now st)) = updateStockLevels (pre @ post) (batches st)"
    if "b_id (ci_batch item) \<notin> b_id ` set (batches st)"
    using that rows by (simp add: updateStockLevels_skip)
  have present: "batches (snd (processSale now st)) =
      updateStockLevels post
        (decrementStock (b_id (ci_batch item)) (ci_quantity item)
           (updateStockLevels pre (batches st)))"
    if d: "distinct (map b_id (batches st))"
  proof -
    from d have "distinct (map b_id (updateStockLevels pre (batches st)))"
      by (simp only: updateStockLevels_keys)
    then have "updateStockLevels (item # post) (updateStockLevels pre (batches st)) =
        updateStockLevels post
         (decrementStock (b_id (ci_batch item)) (ci_quantity item)
            (updateStockLevels pre (batches st)))"
      by (rule updateStockLevels_step)
    with rows show ?thesis by (simp only: updateStockLevels_append)
  qed
  from sale msg absent present show ?thesis by blast
qed

theorem C8_stock_update_or_skip_witness:
  "cartItems partlyStaleCart =
      [] @ \<lparr>ci_medicine = paracetamol jan2024,
            ci_batch = stockBatch ''A'' ''1'' jun2025 10, ci_quantity = 3\<rparr>
         # [\<lparr>ci_medicine = paracetamol jan2024,
             ci_batch = hd (sampleBatches jan2024), ci_quantity = 4\<rparr>]
   \<and> ''A'' \<notin> b_id ` set (batches partlyStaleCart)
   \<and> ''1'' \<in> b_id ` set (batches partlyStaleCart)
   \<and> distinct (map b_id (batches partlyStaleCart))
   \<and> \<not> isl (fst (processSale jan2024 partlyStaleCart))
   \<and> map b_currentStock (batches partlyStaleCart) = [100, 50, 75]
   \<and> map b_currentStock (batches (snd (processSale jan2024 partlyStaleCart))) = [96, 50, 75]"
proof -
  let ?stale = "\<lparr>ci_medicine = paracetamol jan2024,
            ci_batch = stockBatch ''A'' ''1'' jun2025 10, ci_quantity = 3\<rparr>"
  let ?live = "\<lparr>ci_medicine = paracetamol jan2024,
             ci_batch = hd (sampleBatches jan2024), ci_quantity = 4\<rparr>"
  have c1: "cartItems partlyStaleCart = [] @ ?stale # [?live]"
    by (simp add: partlyStaleCart_def)
  have c2: "cartItems partlyStaleCart = [?stale] @ ?live # []"
    by (simp add: partlyStaleCart_def)
  have rows: "batches partlyStaleCart = sampleBatches jan2024"
    by (simp add: partlyStaleCart_def sample_defs)
  have a: "b_id (ci_batch ?stale) \<notin> b_id ` set (batches partlyStaleCart)"
    by (simp add: rows) (simp add: sample_defs fixture_defs)
  have p: "b_id (ci_batch ?live) \<in> b_id ` set (batches partlyStaleCart)"
    by (simp add: rows) (simp add: sample_defs)
  have d: "distinct (map b_id (batches partlyStaleCart))"
    by (simp add: rows) (simp add: sample_defs)
  have before: "map b_currentStock (batches partlyStaleCart) = [100, 50, 75]"
    by (simp add: rows) (simp add: sample_defs)
  have ida: "b_id (ci_batch ?stale) = ''A''" by (simp add: stockBatch_def)
  have idl: "b_id (ci_batch ?live) = ''1''" by (simp add: sample_defs)
  from C8_stock_update_or_skip [OF c1, of jan2024] a
  have skip: "batches (snd (processSale jan2024 partlyStaleCart)) =
       updateStockLevels ([] @ [?live]) (batches partlyStaleCart)"
    and ok: "\<exists>sale. fst (processSale jan2024 partlyStaleCart) = Inr sale"
    by blast+
  have after: "map b_currentStock (batches (snd (processSale jan2024 partlyStaleCart)))
      = [96, 50, 75]"
    by (simp add: skip rows) (simp add: sample_defs batches_get_def batches_update_currentStock_def)
  from ok have "\<not> isl (fst (processSale jan2024 partlyStaleCart))" by auto
  with c1 a p d before after ida idl show ?thesis by simp
qed

text \<open>
  The claim as it stands rules out a sale that reports success without the decrement
  of a line. With a cart whose only line refers to a batch that has no row, the sale
  succeeds and the table is as before.
\<close>

theorem C8_silent_skip_counterexample:
  "map (b_id \<circ> ci_batch) (cartItems staleCart) = [''A'']
   \<and> map b_id (batches staleCart) = [''1'', ''2'', ''3'']
   \<and> \<not> isl (fst (processSale jan2024 staleCart))
   \<and> notifications (snd (processSale jan2024 staleCart)) = [(NSuccess, SaleCompleted jan2024)]
   \<and> batches (snd (processSale jan2024 staleCart)) = batches staleCart"
proof -
  have cart: "cartItems staleCart \<noteq> []" by (simp add: staleCart_def)
  have rows: "batches (snd (processSale jan2024 staleCart)) = batches staleCart"
    by (simp add: processSale_batches [OF cart])
       (simp add: staleCart_def sample_defs fixture_defs batches_get_def)
  have keys: "map b_id (batches staleCart) = [''1'', ''2'', ''3'']"
    by (simp add: staleCart_def sample_defs)
  have line: "map (b_id \<circ> ci_batch) (cartItems staleCart) = [''A'']"
    by (simp add: staleCart_def stockBatch_def)
  have msgs: "notifications (snd (processSale jan2024 staleCart))
      = [(NSuccess, SaleCompleted jan2024)]"
    by (simp add: processSale_notifications [OF cart]) (simp add: staleCart_def sample_defs)
  from processSale_succeeds [OF cart] rows keys line msgs show ?thesis by simp
qed

section \<open>Deleting a medicine: the claim\<close>

text \<open>
  Claim C9. When a batch of the medicine holds stock, \<open>handleDeleteMedicine\<close> fails
  with the error for active stock and changes nothing but the notifications: no
  medicine and no batch is deleted. When every batch of the medicine has
  \<open>currentStock\<close> zero, it deletes the batches of the medicine and the medicine.
\<close>

theorem C9_delete_medicine:
  "((\<exists>b \<in> set (batches st). b_medicineId b = m_id medicine \<and> 0 < b_currentStock b) \<longrightarrow>
      fst (handleDeleteMedicine medicine st) = Inl (HasActiveStock (m_id medicine))
    \<and> snd (handleDeleteMedicine medicine st) = addNotification NError CannotDeleteWithStock st
    \<and> batches (snd (handleDeleteMedicine medicine st)) = batches st
    \<and> medicines (snd (handleDeleteMedicine medicine st)) = medicines st)
   \<and> ((\<forall>b \<in> set (batches st). b_medicineId b = m_id medicine \<longrightarrow> b_currentStock b = 0) \<longrightarrow>
      fst (handleDeleteMedicine medicine st) = Inr ()
    \<and> batches (snd (handleDeleteMedicine medicine st)) =
        filter (\<lambda>b. b_medicineId b \<noteq> m_id medicine) (batches st)
    \<and> medicines (snd (handleDeleteMedicine medicine st)) =
        filter (\<lambda>m. m_id m \<noteq> m_id medicine) (medicines st))"
proof -
  let ?withStock = "filter (\<lambda>batch. 0 < b_currentStock batch)
      (where_medicineId_equals (m_id medicine) (batches st))"
  have refuse: "fst (handleDeleteMedicine medicine st) = Inl (HasActiveStock (m_id medicine))
    \<and> snd (handleDeleteMedicine medicine st) = addNotification NError CannotDeleteWithStock st
    \<and> batches (snd (handleDeleteMedicine medicine st)) = batches st
    \<and> medicines (snd (handleDeleteMedicine medicine st)) = medicines st"
    if "\<exists>b \<in> set (batches st). b_medicineId b = m_id medicine \<and> 0 < b_currentStock b"
  proof -
    from that have "?withStock \<noteq> []"
      by (auto simp: filter_empty_conv where_medicineId_equals_def)
    then show ?thesis
      by (simp add: handleDeleteMedicine_def addNotification_def)
  qed
  have delete: "fst (handleDeleteMedicine medicine st) = Inr ()
    \<and> batches (snd (handleDeleteMedicine medicine st)) =
        filter (\<lambda>b. b_medicineId b \<noteq> m_id medicine) (batches st)
    \<and> medicines (snd (handleDeleteMedicine medicine st)) =
        filter (\<lambda>m. m_id m \<noteq> m_id medicine) (medicines st)"
    if "\<forall>b \<in> set (batches st). b_medicineId b = m_id medicine \<longrightarrow> b_currentStock b = 0"
  proof -
    from that have "?withStock = []"
      by (auto simp: filter_empty_conv where_medicineId_equals_def)
    then show ?thesis
      by (simp add: handleDeleteMedicine_def addNotification_def Let_def)
  qed
  from refuse delete show ?thesis by blast
qed

theorem C9_delete_medicine_witness:
  "(\<exists>b \<in> set (batches sampleShop). b_medicineId b = m_id (paracetamol jan2024) \<and> 0 < b_currentStock b)
   \<and> fst (handleDeleteMedicine (paracetamol jan2024) sampleShop) = Inl (HasActiveStock ''1'')
   \<and> batches (snd (handleDeleteMedicine (paracetamol jan2024) sampleShop)) = batches sampleShop
   \<and> map b_currentStock
         (filter (\<lambda>b. b_medicineId b = m_id (paracetamol jan2024)) (batches zeroStockShop))
       = [0, 0]
   \<and> fst (handleDeleteMedicine (paracetamol jan2024) zeroStockShop) = Inr ()
   \<and> batches (snd (handleDeleteMedicine (paracetamol jan2024) zeroStockShop))
        = [stockBatch ''B'' ''2'' jan2025 5]
   \<and> medicines (snd (handleDeleteMedicine (paracetamol jan2024) zeroStockShop))
        = [alprazolam jan2024, amoxicillin jan2024]"
proof -
  have h1: "\<exists>b \<in> set (batches sampleShop).
      b_medicineId b = m_id (paracetamol jan2024) \<and> 0 < b_currentStock b"
    by (simp add: sampleShop_def sample_defs)
  have h2: "\<forall>b \<in> set (batches zeroStockShop).
      b_medicineId b = m_id (paracetamol jan2024) \<longrightarrow> b_currentStock b = 0"
    by (simp add: zeroStockShop_def sample_defs stockBatch_def)
  have m: "m_id (paracetamol jan2024) = ''1''" by (simp add: paracetamol_def)
  have rows: "filter (\<lambda>b. b_medicineId b \<noteq> ''1'') (batches zeroStockShop)
      = [stockBatch ''B'' ''2'' jan2025 5]"
    by (simp add: zeroStockShop_def sample_defs stockBatch_def)
  have meds: "filter (\<lambda>m. m_id m \<noteq> ''1'') (medicines zeroStockShop)
      = [alprazolam jan2024, amoxicillin jan2024]"
    by (simp add: zeroStockShop_def sample_defs)
  from C9_delete_medicine [of sampleShop "paracetamol jan2024"] h1
  have refused: "fst (handleDeleteMedicine (paracetamol jan2024) sampleShop)
        = Inl (HasActiveStock (m_id (paracetamol jan2024)))"
      "batches (snd (handleDeleteMedicine (paracetamol jan2024) sampleShop)) = batches sampleShop"
    by blast+
  from C9_delete_medicine [of zeroStockShop "paracetamol jan2024"] h2
  have deleted: "fst (handleDeleteMedicine (paracetamol jan2024) zeroStockShop) = Inr ()"
      "batches (snd (handleDeleteMedicine (paracetamol jan2024) zeroStockShop)) =
         filter (\<lambda>b. b_medicineId b \<noteq> m_id (paracetamol jan2024)) (batches zeroStockShop)"
      "medicines (snd (handleDeleteMedicine (paracetamol jan2024) zeroStockShop)) =
         filter (\<lambda>m. m_id m \<noteq> m_id (paracetamol jan2024)) (medicines zeroStockShop)"
    by blast+
  have zero: "map b_currentStock
      (filter (\<lambda>b. b_medicineId b = m_id (paracetamol jan2024)) (batches zeroStockShop))
       = [0, 0]"
    by (simp add: zeroStockShop_def sample_defs stockBatch_def)
  from h1 zero refused deleted show ?thesis by (simp add: m rows meds)
qed

end
